theory Spec2Isabelle
  imports Main "HOL-Library.Word"
begin

unbundle bit_operations_syntax

section \<open>The Dexie helper of RxDB: \<^verbatim>\<open>src/plugins/dexie/dexie-helper.ts\<close>\<close>

text \<open>
  A shallow embedding of the helper functions of the Dexie storage plugin: the escaping of
  field names, the compilation of a schema into a Dexie store declaration, the sort
  comparator, the registry of shared Dexie databases and the merged point lookup.

  Strings are \<open>string\<close>, read as sequences of code units below 256. A JavaScript
  object is an association list of its own properties in the order of their insertion.
\<close>

subsection \<open>Strings, arrays and objects of the host language\<close>

definition startsWith :: "string \<Rightarrow> string \<Rightarrow> bool" where
  "startsWith str searchString = (take (length searchString) str = searchString)"

definition substring :: "string \<Rightarrow> nat \<Rightarrow> string" where
  "substring str start = drop start str"

text \<open>\<^verbatim>\<open>Array.prototype.join\<close> on an array of strings.\<close>

fun array_join :: "string list \<Rightarrow> string \<Rightarrow> string" where
  "array_join [] separator = []"
| "array_join [x] separator = x"
| "array_join (x # y # ys) separator = x @ separator @ array_join (y # ys) separator"

type_synonym 'a js_object = "(string \<times> 'a) list"

text \<open>
  \<^verbatim>\<open>obj[key] = v\<close>: an existing property keeps its place and takes the new value, a new
  property is added after the others.
\<close>

fun set_property :: "'a js_object \<Rightarrow> string \<Rightarrow> 'a \<Rightarrow> 'a js_object" where
  "set_property [] key v = [(key, v)]"
| "set_property ((k, x) # obj) key v =
     (if k = key then (k, v) # obj else (k, x) # set_property obj key v)"

text \<open>\<^verbatim>\<open>delete obj[key]\<close>.\<close>

definition delete_property :: "'a js_object \<Rightarrow> string \<Rightarrow> 'a js_object" where
  "delete_property obj key = filter (\<lambda>(k, x). k \<noteq> key) obj"

text \<open>
  \<^verbatim>\<open>Object.keys(obj)\<close>: the names that are array indices (canonical decimal numerals below
  \<open>2^32 - 1\<close>) come first, in ascending numeric order, then the other names in the order of
  their insertion.
\<close>

definition char_code :: "char \<Rightarrow> nat" where
  "char_code c = of_char c"

definition digits_value :: "string \<Rightarrow> int" where
  "digits_value s = foldl (\<lambda>n c. 10 * n + (int (char_code c) - 48)) 0 s"

definition is_array_index :: "string \<Rightarrow> bool" where
  "is_array_index s =
     (s \<noteq> [] \<and> list_all (\<lambda>c. 48 \<le> char_code c \<and> char_code c \<le> 57) s
      \<and> (s = ''0'' \<or> hd s \<noteq> CHR ''0'') \<and> digits_value s < 4294967295)"

definition Object_keys :: "'a js_object \<Rightarrow> string list" where
  "Object_keys obj =
     (let names = map fst obj
      in sort_key digits_value (filter is_array_index names)
         @ filter (\<lambda>name. \<not> is_array_index name) names)"

text \<open>
  \<^verbatim>\<open>Array.prototype.sort(compareFn)\<close>, a stable sort: each element is inserted into the
  sorted elements before it, in front of the first one that it is less than. (For a
  \<^verbatim>\<open>compareFn\<close> that is not consistent the order of three or more elements depends on the
  engine; of two elements the second moves to the front exactly when \<^verbatim>\<open>compareFn\<close> puts it
  before the first.)
\<close>

fun insert_by :: "('a \<Rightarrow> 'a \<Rightarrow> int) \<Rightarrow> 'a \<Rightarrow> 'a list \<Rightarrow> 'a list" where
  "insert_by compareFn y [] = [y]"
| "insert_by compareFn y (x # xs) =
     (if compareFn y x < 0 then y # x # xs else x # insert_by compareFn y xs)"

definition Array_sort :: "('a \<Rightarrow> 'a \<Rightarrow> int) \<Rightarrow> 'a list \<Rightarrow> 'a list" where
  "Array_sort compareFn array = foldl (\<lambda>sortedPart y. insert_by compareFn y sortedPart) [] array"

text \<open>The order of strings by their code units, which \<^verbatim>\<open>sort()\<close> uses by default.\<close>

fun string_less :: "string \<Rightarrow> string \<Rightarrow> bool" where
  "string_less [] [] = False"
| "string_less [] (y # ys) = True"
| "string_less (x # xs) [] = False"
| "string_less (x # xs) (y # ys) =
     (if char_code x = char_code y then string_less xs ys else char_code x < char_code y)"

definition compare_strings :: "string \<Rightarrow> string \<Rightarrow> int" where
  "compare_strings a b = (if string_less a b then - 1 else if string_less b a then 1 else 0)"

text \<open>
  The values of a document: \<^verbatim>\<open>null\<close>, booleans, numbers, strings and nested objects.
  Numbers are the integers that the host language prints in plain decimal notation;
  arrays are not modelled. \<^verbatim>\<open>undefined\<close>, the value of a property that an object does
  not have, is \<open>None\<close> of \<open>js_value option\<close>.
\<close>

datatype js_value =
  JSNull | JSBool bool | JSNumber int | JSString string | JSObject "(string \<times> js_value) list"

text \<open>\<^verbatim>\<open>Number.prototype.toString\<close> on an integer.\<close>

definition digit_char :: "nat \<Rightarrow> char" where
  "digit_char d = ''0123456789'' ! d"

fun decimal :: "nat \<Rightarrow> string" where
  "decimal n = (if n < 10 then [digit_char n] else decimal (n div 10) @ [digit_char (n mod 10)])"

declare decimal.simps [simp del]

definition Number_toString :: "int \<Rightarrow> string" where
  "Number_toString n = (if n < 0 then ''-'' @ decimal (nat (- n)) else decimal (nat n))"

text \<open>The conversion of a value to a string when it is used as a property name.\<close>

fun ToString :: "js_value option \<Rightarrow> string" where
  "ToString None = ''undefined''"
| "ToString (Some JSNull) = ''null''"
| "ToString (Some (JSBool b)) = (if b then ''true'' else ''false'')"
| "ToString (Some (JSNumber n)) = Number_toString n"
| "ToString (Some (JSString s)) = s"
| "ToString (Some (JSObject kvs)) = ''[object Object]''"

text \<open>\<^verbatim>\<open>JSON.stringify\<close> on a string: the string in double quotes, with its escapes.\<close>

definition hex_digit :: "nat \<Rightarrow> char" where
  "hex_digit d = ''0123456789abcdef'' ! d"

definition json_escape :: "char \<Rightarrow> string" where
  "json_escape c =
     (if c = CHR 0x22 then [CHR 0x5C, CHR 0x22]
      else if c = CHR 0x5C then [CHR 0x5C, CHR 0x5C]
      else if c = CHR 0x08 then [CHR 0x5C, CHR ''b'']
      else if c = CHR 0x09 then [CHR 0x5C, CHR ''t'']
      else if c = CHR 0x0A then [CHR 0x5C, CHR ''n'']
      else if c = CHR 0x0C then [CHR 0x5C, CHR ''f'']
      else if c = CHR 0x0D then [CHR 0x5C, CHR ''r'']
      else if char_code c < 32
      then [CHR 0x5C, CHR ''u'', CHR ''0'', CHR ''0'',
            hex_digit (char_code c div 16), hex_digit (char_code c mod 16)]
      else [c])"

definition JSON_stringify :: "string \<Rightarrow> string" where
  "JSON_stringify s = [CHR 0x22] @ concat (map json_escape s) @ [CHR 0x22]"

subsection \<open>The schema\<close>

text \<open>
  An index of a schema is one field path or an array of field paths. The primary key of a
  schema is a string or a composite key object; \<^verbatim>\<open>getPrimaryFieldOfPrimaryKey\<close> (in
  \<^verbatim>\<open>rx-schema.ts\<close>, not part of this file) resolves it to a field name. The functions below
  take that resolver as their first argument.
\<close>

datatype index_declaration = IndexField string | IndexFields "string list"

record 'pk RxJsonSchema =
  primaryKey :: 'pk
  indexes :: "index_declaration list option"

subsection \<open>Escaping of field names\<close>

definition DEXIE_PIPE_SUBSTITUTE :: string where
  "DEXIE_PIPE_SUBSTITUTE = ''RxDBSubstPIPE''"

definition dexieReplaceIfStartsWithPipe :: "string \<Rightarrow> string" where
  "dexieReplaceIfStartsWithPipe str =
     (if startsWith str ''|''
      then (let withoutFirst = substring str 1 in DEXIE_PIPE_SUBSTITUTE @ withoutFirst)
      else str)"

subsection \<open>The Dexie store declaration\<close>

definition getDexieStoreSchema :: "('pk \<Rightarrow> string) \<Rightarrow> 'pk RxJsonSchema \<Rightarrow> string" where
  "getDexieStoreSchema getPrimaryFieldOfPrimaryKey rxJsonSchema =
     (let parts = [];
          primaryKey = getPrimaryFieldOfPrimaryKey (primaryKey rxJsonSchema);
          parts = parts @ [[primaryKey]];
          parts = (case indexes rxJsonSchema of
                     None \<Rightarrow> parts
                   | Some ixs \<Rightarrow>
                       fold (\<lambda>index parts.
                               let arIndex = (case index of
                                                IndexFields paths \<Rightarrow> paths
                                              | IndexField path \<Rightarrow> [path])
                               in parts @ [arIndex])
                            ixs parts);
          parts = map (\<lambda>part. map dexieReplaceIfStartsWithPipe part) parts
      in array_join
           (map (\<lambda>part. if length part = 1 then hd part
                        else ''['' @ array_join part ''+'' @ '']'')
                parts)
           '', '')"

definition getDexieEventKey :: "bool \<Rightarrow> string \<Rightarrow> string \<Rightarrow> string" where
  "getDexieEventKey isLocal primary revision =
     (let prefix = (if isLocal then ''local'' else ''non-local'');
          eventKey = prefix @ ''|'' @ primary @ ''|'' @ revision
      in eventKey)"

subsection \<open>Documents and the sort comparator\<close>

text \<open>
  A document is an object of field values. \<open>resolve\<close> reads a property of a document
  by its name.
\<close>

type_synonym 'v doc = "'v js_object"

definition resolve :: "'v doc \<Rightarrow> string \<Rightarrow> 'v option" where
  "resolve obj key = map_of obj key"

datatype sort_direction = Asc | Desc

text \<open>
  Of a query only the sort clause is read here: an optional array of sort blocks, each an
  object with one field name and its direction.
\<close>

record MangoQuery =
  query_sort :: "(string \<times> sort_direction) list option"

fun sortDirectionToMingo :: "sort_direction \<Rightarrow> int" where
  "sortDirectionToMingo Asc = 1"
| "sortDirectionToMingo Desc = - 1"

datatype error = OpenFailed | TypeError

subsubsection \<open>The sort of the mingo library\<close>

text \<open>
  The comparator hands the whole comparison to \<^verbatim>\<open>mingo.find([a, b], {}).sort(sortKeys)\<close>.
  The library is not part of the repository; what follows is its sort, function by
  function (\<^verbatim>\<open>util.ts\<close> and \<^verbatim>\<open>operators/pipeline/sort.ts\<close> of mingo 5). Objects that the
  library uses as tables are association lists of their own properties. The names that
  every object inherits are modelled where a value of a document is used as the name
  (\<^verbatim>\<open>sortBy\<close>), not where the name is a field name of the sort clause.

  \<^verbatim>\<open>stringify\<close> encodes a value for hashing; the keys of an object are sorted.
\<close>

fun stringify :: "js_value \<Rightarrow> string" where
  "stringify JSNull = ''null''"
| "stringify (JSBool b) = (if b then ''true'' else ''false'')"
| "stringify (JSNumber n) = Number_toString n"
| "stringify (JSString s) = JSON_stringify s"
| "stringify (JSObject kvs) =
     (let encoded = map (\<lambda>(k, v). (k, stringify v)) kvs;
          objKeys = Array_sort compare_strings (Object_keys kvs)
      in ''{''
         @ array_join
             (map (\<lambda>k. JSON_stringify k @ '':''
                       @ (case map_of encoded k of Some s \<Rightarrow> s | None \<Rightarrow> ''undefined''))
                  objKeys)
             '',''
         @ ''}'')"

text \<open>
  The default hash function: over the characters of the encoding, from the last to the
  first, \<^verbatim>\<open>hash = ((hash << 5) - hash) ^ s.charCodeAt(--i)\<close> in 32-bit arithmetic, read as
  an unsigned number at the end.
\<close>

definition DEFAULT_HASH_FUNCTION :: "js_value \<Rightarrow> 32 word" where
  "DEFAULT_HASH_FUNCTION v =
     (let s = stringify v
      in fold (\<lambda>c hash. (push_bit 5 hash - hash) XOR of_nat (char_code c)) (rev s) 0)"

text \<open>\<^verbatim>\<open>hashCode\<close>: \<^verbatim>\<open>null\<close> (here \<open>None\<close>) for \<^verbatim>\<open>undefined\<close> and \<^verbatim>\<open>null\<close>, else the hash.\<close>

definition hashCode :: "js_value option \<Rightarrow> 32 word option" where
  "hashCode v =
     (case v of
        None \<Rightarrow> None
      | Some JSNull \<Rightarrow> None
      | Some x \<Rightarrow> Some (DEFAULT_HASH_FUNCTION x))"

text \<open>
  \<^verbatim>\<open>resolve(obj, selector)\<close>: the selector is split at the dots and the path is walked from
  the document; the walk ends with \<^verbatim>\<open>undefined\<close> at a property that is missing or at a
  value that is no object.
\<close>

fun split_on :: "char \<Rightarrow> string \<Rightarrow> string list" where
  "split_on separator [] = [[]]"
| "split_on separator (c # cs) =
     (if c = separator then [] # split_on separator cs
      else (case split_on separator cs of
              [] \<Rightarrow> [[c]]
            | part # parts \<Rightarrow> (c # part) # parts))"

fun getValue :: "js_value \<Rightarrow> string \<Rightarrow> js_value option" where
  "getValue (JSObject kvs) field = map_of kvs field"
| "getValue v field = None"

fun resolve2 :: "js_value \<Rightarrow> string list \<Rightarrow> js_value option" where
  "resolve2 v [] = Some v"
| "resolve2 v (field # path) =
     (case getValue v field of
        None \<Rightarrow> None
      | Some v' \<Rightarrow> resolve2 v' path)"

definition mingo_resolve :: "js_value doc \<Rightarrow> string \<Rightarrow> js_value option" where
  "mingo_resolve obj selector = resolve2 (JSObject obj) (split_on CHR ''.'' selector)"

text \<open>
  \<^verbatim>\<open>groupBy\<close>: the documents are grouped by the hash of their key. \<^verbatim>\<open>lookup\<close> maps a hash
  to the index of its group; the key of a group is the key of its first document. Two
  keys with the same hash fall into one group.
\<close>

definition groupBy ::
  "'a list \<Rightarrow> ('a \<Rightarrow> js_value option) \<Rightarrow> js_value option list \<times> 'a list list" where
  "groupBy collection keyFn =
     (let (keys, groups, lookup) =
            fold (\<lambda>obj (keys, groups, lookup).
                    let key = keyFn obj;
                        hash = hashCode key
                    in case map_of lookup hash of
                         None \<Rightarrow>
                           (keys @ [key], groups @ [[obj]], lookup @ [(hash, length keys)])
                       | Some index \<Rightarrow>
                           (keys, groups[index := groups ! index @ [obj]], lookup))
                 collection ([], [], [])
      in (keys, groups))"

text \<open>
  \<^verbatim>\<open>sortBy\<close>: elements with the key \<^verbatim>\<open>undefined\<close> or \<^verbatim>\<open>null\<close> go first. The others are
  collected in the table \<^verbatim>\<open>hash\<close> under their key, the key converted to a property name;
  the keys are sorted and the entries of the table appended in that order. The test
  \<^verbatim>\<open>if (hash[key])\<close> finds an inherited property for a key that names one, and the call of
  its \<^verbatim>\<open>push\<close> throws a \<^verbatim>\<open>TypeError\<close>.
\<close>

definition Object_prototype_names :: "string list" where
  "Object_prototype_names =
     [''constructor'', ''__defineGetter__'', ''__defineSetter__'', ''hasOwnProperty'',
      ''__lookupGetter__'', ''__lookupSetter__'', ''isPrototypeOf'', ''propertyIsEnumerable'',
      ''toString'', ''valueOf'', ''__proto__'', ''toLocaleString'']"

fun sortBy_collect ::
  "('a \<Rightarrow> nat \<Rightarrow> js_value option) \<Rightarrow> 'a list \<Rightarrow> nat
   \<Rightarrow> js_value list \<times> 'a list \<times> 'a list js_object
   \<Rightarrow> error + js_value list \<times> 'a list \<times> 'a list js_object" where
  "sortBy_collect keyFn [] i state = Inr state"
| "sortBy_collect keyFn (obj # collection) i (sortedKeys, result, hash) =
     (let key = keyFn obj i
      in case key of
           None \<Rightarrow> sortBy_collect keyFn collection (Suc i) (sortedKeys, result @ [obj], hash)
         | Some JSNull \<Rightarrow> sortBy_collect keyFn collection (Suc i) (sortedKeys, result @ [obj], hash)
         | Some k \<Rightarrow>
             (case map_of hash (ToString key) of
                Some objs \<Rightarrow>
                  sortBy_collect keyFn collection (Suc i)
                    (sortedKeys @ [k], result, set_property hash (ToString key) (objs @ [obj]))
              | None \<Rightarrow>
                  if ToString key \<in> set Object_prototype_names then Inl TypeError
                  else sortBy_collect keyFn collection (Suc i)
                         (sortedKeys @ [k], result, set_property hash (ToString key) [obj])))"

definition sortBy ::
  "'a list \<Rightarrow> ('a \<Rightarrow> nat \<Rightarrow> js_value option) \<Rightarrow> (js_value \<Rightarrow> js_value \<Rightarrow> int)
   \<Rightarrow> error + 'a list" where
  "sortBy collection keyFn comparator =
     (if collection = [] then Inr collection
      else case sortBy_collect keyFn collection 0 ([], [], []) of
             Inl e \<Rightarrow> Inl e
           | Inr (sortedKeys, result, hash) \<Rightarrow>
               (let sortedKeys = Array_sort comparator sortedKeys
                in Inr (result
                        @ concat (map (\<lambda>k. case map_of hash (ToString (Some k)) of
                                               Some objs \<Rightarrow> objs | None \<Rightarrow> [])
                                      sortedKeys))))"

text \<open>
  The default comparator: \<^verbatim>\<open>if (a < b) return -1; if (a > b) return 1; return 0\<close>. The
  \<^verbatim>\<open><\<close> of the host language converts strings to floating-point numbers when it
  compares values of different types; it is the parameter \<open>js_less\<close>.
\<close>

definition DEFAULT_COMPARATOR :: "('v \<Rightarrow> 'v \<Rightarrow> bool) \<Rightarrow> 'v \<Rightarrow> 'v \<Rightarrow> int" where
  "DEFAULT_COMPARATOR js_less a b =
     (if js_less a b then - 1 else if js_less b a then 1 else 0)"

text \<open>
  One pass of \<^verbatim>\<open>$sort\<close>, for one key of the sort object: the collection is grouped by the
  value of the key, the keys of the groups are sorted (\<^verbatim>\<open>sortedIndex\<close> records, under the
  key as a property name, the index of its group), reversed for the direction \<open>-1\<close>, and
  the groups are concatenated in that order.
\<close>

definition mingo_sort_by ::
  "(js_value \<Rightarrow> js_value \<Rightarrow> bool) \<Rightarrow> string \<Rightarrow> int option
   \<Rightarrow> js_value doc list \<Rightarrow> error + js_value doc list" where
  "mingo_sort_by js_less key direction coll =
     (let (keys, groups) = groupBy coll (\<lambda>obj. mingo_resolve obj key);
          sortedIndex =
            fold (\<lambda>(k, i) sortedIndex. set_property sortedIndex (ToString k) i)
                 (zip keys [0..<length keys]) []
      in case sortBy keys (\<lambda>k i. k) (DEFAULT_COMPARATOR js_less) of
           Inl e \<Rightarrow> Inl e
         | Inr indexKeys \<Rightarrow>
             (let indexKeys = (if direction = Some (- 1) then rev indexKeys else indexKeys)
              in Inr (concat (map (\<lambda>k. case map_of sortedIndex (ToString k) of
                                          Some i \<Rightarrow> groups ! i | None \<Rightarrow> [])
                                  indexKeys))))"

text \<open>\<^verbatim>\<open>$sort\<close>: one pass for each key of the sort object, from the last key to the first.\<close>

fun mingo_sort_keys ::
  "(js_value \<Rightarrow> js_value \<Rightarrow> bool) \<Rightarrow> int js_object \<Rightarrow> string list
   \<Rightarrow> js_value doc list \<Rightarrow> error + js_value doc list" where
  "mingo_sort_keys js_less sortKeys [] coll = Inr coll"
| "mingo_sort_keys js_less sortKeys (key # modifiers) coll =
     (case mingo_sort_by js_less key (map_of sortKeys key) coll of
        Inl e \<Rightarrow> Inl e
      | Inr coll' \<Rightarrow> mingo_sort_keys js_less sortKeys modifiers coll')"

definition mingo_sort ::
  "(js_value \<Rightarrow> js_value \<Rightarrow> bool) \<Rightarrow> int js_object
   \<Rightarrow> js_value doc list \<Rightarrow> error + js_value doc list" where
  "mingo_sort js_less sortKeys coll =
     (if sortKeys = [] then Inr coll
      else mingo_sort_keys js_less sortKeys (rev (Object_keys sortKeys)) coll)"

subsubsection \<open>The comparator\<close>

text \<open>
  The comparator returns \<open>-1\<close> or \<open>1\<close>, or fails with the error of the sort. The
  comparison \<^verbatim>\<open>first === a\<close> is one of references; \<open>first\<close> is a document of the input, and
  two documents with the same fields give \<open>-1\<close> either way.
\<close>

definition getDexieSortComparator ::
  "('pk \<Rightarrow> string) \<Rightarrow> (js_value \<Rightarrow> js_value \<Rightarrow> bool) \<Rightarrow> 'pk RxJsonSchema \<Rightarrow> MangoQuery
   \<Rightarrow> js_value doc \<Rightarrow> js_value doc \<Rightarrow> error + int" where
  "getDexieSortComparator getPrimaryFieldOfPrimaryKey js_less schema query =
     (let primaryKey = getPrimaryFieldOfPrimaryKey (primaryKey schema);
          mingoSortObject = [];
          wasPrimaryInSort = False;
          (mingoSortObject, wasPrimaryInSort) =
            (case query_sort query of
               None \<Rightarrow> (mingoSortObject, wasPrimaryInSort)
             | Some sortBlocks \<Rightarrow>
                 fold (\<lambda>(key, direction) (mingoSortObject, wasPrimaryInSort).
                         (set_property mingoSortObject key (sortDirectionToMingo direction),
                          (if key = primaryKey then True else wasPrimaryInSort)))
                      sortBlocks (mingoSortObject, wasPrimaryInSort));
          mingoSortObject =
            (if \<not> wasPrimaryInSort then set_property mingoSortObject primaryKey 1
             else mingoSortObject)
      in (\<lambda>a b.
            case mingo_sort js_less mingoSortObject [a, b] of
              Inl e \<Rightarrow> Inl e
            | Inr sortedDocs \<Rightarrow>
                (let first = (case sortedDocs of [] \<Rightarrow> None | x # xs \<Rightarrow> Some x)
                 in if first = Some a then Inr (- 1) else Inr 1)))"

subsection \<open>The registry of Dexie databases\<close>

text \<open>
  The module keeps two maps: from the name of a Dexie database to the promise of its
  internals, and from such a promise to a reference count. A promise has an identity, so
  the promises live in a store and a handle is an index into it. Everything the properties
  below observe of a Dexie database is kept with its promise: the name and the options it was
  constructed with, the declared stores, whether \<^verbatim>\<open>close()\<close> was called, the contents of
  the two document tables, and whether the promise is pending, fulfilled or rejected.
  The settings objects live in a heap of their own, so that a write to one object is
  seen to leave the others alone. The calls of \<^verbatim>\<open>open()\<close> and \<^verbatim>\<open>close()\<close> are logged.
\<close>

datatype js_number = Num int | NaN

datatype promise_state = Pending | Fulfilled | Rejected

datatype 'a outcome = Returns 'a | Throws error | Awaits

record 'v DexieStorageInternals =
  dexieDb_name :: string
  dexieDb_options :: nat
  dexieDb_stores :: "string js_object"
  dexieDb_closed :: bool
  dexieTable :: "string \<rightharpoonup> 'v doc"
  dexieDeletedTable :: "string \<rightharpoonup> 'v doc"
  promise :: promise_state

record 'v world =
  heap :: "js_value js_object list"
  promises :: "'v DexieStorageInternals list"
  DEXIE_STATE_DB_BY_NAME :: "string \<rightharpoonup> nat"
  REF_COUNT_PER_DEXIE_DB :: "nat \<rightharpoonup> js_number"
  open_calls :: "string list"
  close_calls :: "nat list"

definition DEXIE_DOCS_TABLE_NAME :: string where
  "DEXIE_DOCS_TABLE_NAME = ''docs''"

definition DEXIE_DELETED_DOCS_TABLE_NAME :: string where
  "DEXIE_DELETED_DOCS_TABLE_NAME = ''deleted-docs''"

definition DEXIE_CHANGES_TABLE_NAME :: string where
  "DEXIE_CHANGES_TABLE_NAME = ''changes''"

text \<open>The state of the module when it is loaded: both maps empty, nothing allocated.\<close>

definition initial_world :: "'v world" where
  "initial_world =
     \<lparr>heap = [], promises = [], DEXIE_STATE_DB_BY_NAME = Map.empty,
      REF_COUNT_PER_DEXIE_DB = Map.empty, open_calls = [], close_calls = []\<rparr>"

text \<open>
  Modelled from the spec: \<^verbatim>\<open>flatClone\<close> of \<^verbatim>\<open>util.ts\<close> is not part of this file; it is
  the shallow clone of an object, a new object with the same properties. It returns the
  address of the clone and the heap that holds it.
\<close>

definition flatClone :: "'a list \<Rightarrow> nat \<Rightarrow> nat \<times> 'a list" where
  "flatClone h obj = (length h, h @ [h ! obj])"

text \<open>
  \<^verbatim>\<open>await p\<close>: the value of a fulfilled promise, the error of a rejected one; on a pending
  promise the caller stays suspended. An index that is no promise of the store never
  settles.
\<close>

definition await :: "'v world \<Rightarrow> nat \<Rightarrow> 'v DexieStorageInternals outcome" where
  "await w p =
     (if p < length (promises w)
      then (case promise (promises w ! p) of
              Pending \<Rightarrow> Awaits
            | Fulfilled \<Rightarrow> Returns (promises w ! p)
            | Rejected \<Rightarrow> Throws OpenFailed)
      else Awaits)"

text \<open>
  The function is synchronous: the body of the asynchronous closure runs up to
  \<^verbatim>\<open>await dexieDb.open()\<close>, where the closure hands back its pending promise, and the two
  maps are written before the function returns. It returns the handle and the new state.
  The tables of a new database are taken as empty; what they hold is written by the
  storage instance, outside this file.
\<close>

definition getDexieDbWithTables ::
  "('pk \<Rightarrow> string) \<Rightarrow> string \<Rightarrow> string \<Rightarrow> nat \<Rightarrow> 'pk RxJsonSchema \<Rightarrow> 'v world \<Rightarrow> nat \<times> 'v world" where
  "getDexieDbWithTables getPrimaryFieldOfPrimaryKey databaseName collectionName settings schema w =
     (let primaryPath = getPrimaryFieldOfPrimaryKey (primaryKey schema);
          dexieDbName = ''rxdb-dexie-'' @ databaseName @ ''--'' @ collectionName
      in case DEXIE_STATE_DB_BY_NAME w dexieDbName of
           Some state \<Rightarrow> (state, w)
         | None \<Rightarrow>
             (let (useSettings, h) = flatClone (heap w) settings;
                  h = h[useSettings := set_property (h ! useSettings) ''autoOpen'' (JSBool False)];
                  dexieDb =
                    \<lparr>dexieDb_name = dexieDbName,
                     dexieDb_options = useSettings,
                     dexieDb_stores =
                       [(DEXIE_DOCS_TABLE_NAME,
                           getDexieStoreSchema getPrimaryFieldOfPrimaryKey schema),
                        (DEXIE_CHANGES_TABLE_NAME, ''++sequence, id''),
                        (DEXIE_DELETED_DOCS_TABLE_NAME, primaryPath @ '',$lastWriteAt'')],
                     dexieDb_closed = False,
                     dexieTable = Map.empty,
                     dexieDeletedTable = Map.empty,
                     promise = Pending\<rparr>;
                  state = length (promises w)
              in (state,
                  w\<lparr>heap := h,
                    promises := promises w @ [dexieDb],
                    open_calls := open_calls w @ [dexieDbName],
                    DEXIE_STATE_DB_BY_NAME := (DEXIE_STATE_DB_BY_NAME w)(dexieDbName \<mapsto> state),
                    REF_COUNT_PER_DEXIE_DB := (REF_COUNT_PER_DEXIE_DB w)(state \<mapsto> Num 0)\<rparr>)))"

text \<open>
  The two ways \<^verbatim>\<open>await dexieDb.open()\<close> can end, as steps of the environment: the
  pending promise of a handle is fulfilled, or it is rejected.
\<close>

definition settle :: "promise_state \<Rightarrow> nat \<Rightarrow> 'v world \<Rightarrow> 'v world" where
  "settle result p w =
     (if p < length (promises w) \<and> promise (promises w ! p) = Pending
      then w\<lparr>promises := (promises w)[p := (promises w ! p)\<lparr>promise := result\<rparr>]\<rparr>
      else w)"

definition open_succeeds :: "nat \<Rightarrow> 'v world \<Rightarrow> 'v world" where
  "open_succeeds = settle Fulfilled"

definition open_fails :: "nat \<Rightarrow> 'v world \<Rightarrow> 'v world" where
  "open_fails = settle Rejected"

text \<open>\<^verbatim>\<open>(prevCount as any) - 1\<close>, where \<^verbatim>\<open>prevCount\<close> is a number or \<^verbatim>\<open>undefined\<close>.\<close>

fun minus_one :: "js_number option \<Rightarrow> js_number" where
  "minus_one None = NaN"
| "minus_one (Some NaN) = NaN"
| "minus_one (Some (Num n)) = Num (n - 1)"

text \<open>
  \<^verbatim>\<open>closeDexieDb\<close> first awaits the handle; what follows the \<^verbatim>\<open>await\<close> runs without
  suspension.
\<close>

definition closeDexieDb :: "nat \<Rightarrow> 'v world \<Rightarrow> 'v world outcome" where
  "closeDexieDb statePromise w =
     (case await w statePromise of
        Awaits \<Rightarrow> Awaits
      | Throws e \<Rightarrow> Throws e
      | Returns state \<Rightarrow>
          (let prevCount = REF_COUNT_PER_DEXIE_DB w statePromise;
               newCount = minus_one prevCount
           in if newCount = Num 0
              then Returns
                     (w\<lparr>promises := (promises w)[statePromise := state\<lparr>dexieDb_closed := True\<rparr>],
                        close_calls := close_calls w @ [statePromise],
                        REF_COUNT_PER_DEXIE_DB := (REF_COUNT_PER_DEXIE_DB w)(statePromise := None)\<rparr>)
              else Returns
                     (w\<lparr>REF_COUNT_PER_DEXIE_DB :=
                          (REF_COUNT_PER_DEXIE_DB w)(statePromise \<mapsto> newCount)\<rparr>)))"

subsection \<open>Reading documents\<close>

definition stripDexieKey :: "'v doc \<Rightarrow> 'v doc" where
  "stripDexieKey docData =
     (let cloned = docData;
          cloned = delete_property cloned ''$lastWriteAt''
      in cloned)"

text \<open>
  \<^verbatim>\<open>Table.bulkGet(keys)\<close> of Dexie: one result for each key, in the order of the keys,
  \<^verbatim>\<open>undefined\<close> (here \<open>None\<close>) for a key the table does not hold. Failures of the
  engine are not modelled.
\<close>

definition bulkGet :: "(string \<rightharpoonup> 'v doc) \<Rightarrow> string list \<Rightarrow> 'v doc option list" where
  "bulkGet table keys = map table keys"

text \<open>
  \<^verbatim>\<open>array.forEach((x, idx) => ...)\<close> with an accumulated state: the callback is applied to
  each element and its index, from the first to the last.
\<close>

definition forEach_indexed :: "('a \<Rightarrow> nat \<Rightarrow> 's \<Rightarrow> 's) \<Rightarrow> 'a list \<Rightarrow> 's \<Rightarrow> 's" where
  "forEach_indexed callback array s =
     fold (\<lambda>(x, idx) s. callback x idx s) (zip array [0..<length array]) s"

text \<open>
  Both arrays that \<^verbatim>\<open>bulkGet\<close> returns are as long as \<^verbatim>\<open>docIds\<close>, so the assignment
  \<^verbatim>\<open>docsInDb[idx] = doc\<close> always falls inside the array.
\<close>

definition getDocsInDb :: "'v world \<Rightarrow> nat \<Rightarrow> string list \<Rightarrow> 'v doc option list outcome" where
  "getDocsInDb w internals docIds =
     (case await w internals of
        Awaits \<Rightarrow> Awaits
      | Throws e \<Rightarrow> Throws e
      | Returns state \<Rightarrow>
          (let nonDeletedDocsInDb = bulkGet (dexieTable state) docIds;
               deletedDocsInDb = bulkGet (dexieDeletedTable state) docIds;
               docsInDb = deletedDocsInDb
           in Returns
                (forEach_indexed
                   (\<lambda>doc idx docsInDb.
                      case doc of Some d \<Rightarrow> docsInDb[idx := Some d] | None \<Rightarrow> docsInDb)
                   nonDeletedDocsInDb docsInDb)))"

subsection \<open>States used in the examples\<close>

definition example_schema :: "string RxJsonSchema" where
  "example_schema = \<lparr>primaryKey = ''id'', indexes = None\<rparr>"

text \<open>The module as loaded, and one settings object of the caller at address 0.\<close>

definition example_world :: "js_value world" where
  "example_world = initial_world\<lparr>heap := [[(''autoOpen'', JSBool True)]]\<rparr>"

definition example_acquire :: "js_value world \<Rightarrow> nat \<times> js_value world" where
  "example_acquire = getDexieDbWithTables (\<lambda>pk. pk) ''db'' ''col'' 0 example_schema"

text \<open>
  An open database that no reference count tracks: the id \<open>x\<close> is in both tables, the
  id \<open>y\<close> among the deleted documents only, the id \<open>z\<close> in neither.
\<close>

definition example_tables_world :: "js_value world" where
  "example_tables_world =
     initial_world
       \<lparr>promises :=
          [\<lparr>dexieDb_name = ''rxdb-dexie-db--col'',
            dexieDb_options = 0,
            dexieDb_stores = [],
            dexieDb_closed = False,
            dexieTable = [''x'' \<mapsto> [(''id'', JSString ''x''), (''n'', JSNumber 2)]],
            dexieDeletedTable =
              [''x'' \<mapsto> [(''id'', JSString ''x''), (''n'', JSNumber 1), (''$lastWriteAt'', JSNumber 99)],
               ''y'' \<mapsto> [(''id'', JSString ''y''), (''n'', JSNumber 3), (''$lastWriteAt'', JSNumber 98)]],
            promise = Fulfilled\<rparr>]\<rparr>"

section \<open>Properties\<close>

subsection \<open>Escaping\<close>

text \<open>
  Claim C6. A field name that does not start with the pipe character is returned
  unchanged. A name that starts with it comes back as the substitute token
  \<open>RxDBSubstPIPE\<close> followed by the rest of the name, character for character; the name
  \<open>|a.b\<close> gives \<open>RxDBSubstPIPEa.b\<close>.
\<close>

theorem dexieReplaceIfStartsWithPipe_spec:
  "(\<not> startsWith name ''|'' \<longrightarrow> dexieReplaceIfStartsWithPipe name = name)
   \<and> dexieReplaceIfStartsWithPipe (CHR ''|'' # rest) = ''RxDBSubstPIPE'' @ rest
   \<and> dexieReplaceIfStartsWithPipe ''|a.b'' = ''RxDBSubstPIPEa.b''"
  by (simp add: dexieReplaceIfStartsWithPipe_def startsWith_def substring_def
      DEXIE_PIPE_SUBSTITUTE_def)

theorem dexieReplaceIfStartsWithPipe_spec_witness:
  "\<not> startsWith ''a|b'' ''|'' \<and> dexieReplaceIfStartsWithPipe ''a|b'' = ''a|b''
   \<and> dexieReplaceIfStartsWithPipe ''||x'' = ''RxDBSubstPIPE|x''"
  using dexieReplaceIfStartsWithPipe_spec [of "''a|b''" "''|x''"]
  by (simp add: startsWith_def)

subsection \<open>The store declaration\<close>

lemma fold_push_parts:
  "fold (\<lambda>index parts. parts @ [case index of IndexFields paths \<Rightarrow> paths | IndexField path \<Rightarrow> [path]]) ixs parts
   = parts @ map (\<lambda>index. case index of IndexFields paths \<Rightarrow> paths | IndexField path \<Rightarrow> [path]) ixs"
  by (induction ixs arbitrary: parts) simp_all

lemma array_join_Cons:
  "array_join (x # xs) sep = (if xs = [] then x else x @ sep @ array_join xs sep)"
  by (cases xs) simp_all

lemma render_index:
  "(if length (map dexieReplaceIfStartsWithPipe
                 (case index of IndexFields paths \<Rightarrow> paths | IndexField path \<Rightarrow> [path])) = 1
    then hd (map dexieReplaceIfStartsWithPipe
               (case index of IndexFields paths \<Rightarrow> paths | IndexField path \<Rightarrow> [path]))
    else ''['' @ array_join (map dexieReplaceIfStartsWithPipe
               (case index of IndexFields paths \<Rightarrow> paths | IndexField path \<Rightarrow> [path])) ''+'' @ '']'')
   = (case index of
        IndexField path \<Rightarrow> dexieReplaceIfStartsWithPipe path
      | IndexFields paths \<Rightarrow>
          (if length paths = 1 then dexieReplaceIfStartsWithPipe (hd paths)
           else ''['' @ array_join (map dexieReplaceIfStartsWithPipe paths) ''+'' @ '']''))"
proof (cases index)
  case (IndexField path)
  then show ?thesis by simp
next
  case (IndexFields paths)
  then show ?thesis by (cases paths) simp_all
qed

text \<open>
  Claim C4. For every schema, the store declaration is the rendered groups joined by
  \<open>", "\<close>. The first group is the escaped primary key; one group follows for each
  declared index: a single field, or an array of one field, as the bare escaped name, any
  other array as its escaped names joined by \<open>+\<close> in brackets. So the declaration is the
  escaped primary key alone, or the escaped primary key, the separator and the other
  groups. For the primary key \<open>id\<close> and the indexes \<open>[["a"],["b","c"]]\<close> the declaration
  is exactly \<open>id, a, [b+c]\<close>.
\<close>

theorem getDexieStoreSchema_primary_first:
  "getDexieStoreSchema gp schema
     = array_join
         (dexieReplaceIfStartsWithPipe (gp (primaryKey schema)) #
          map (\<lambda>index. case index of
                  IndexField path \<Rightarrow> dexieReplaceIfStartsWithPipe path
                | IndexFields paths \<Rightarrow>
                    (if length paths = 1 then dexieReplaceIfStartsWithPipe (hd paths)
                     else ''['' @ array_join (map dexieReplaceIfStartsWithPipe paths) ''+'' @ '']''))
              (case indexes schema of None \<Rightarrow> [] | Some ixs \<Rightarrow> ixs))
         '', ''
   \<and> (getDexieStoreSchema gp schema = dexieReplaceIfStartsWithPipe (gp (primaryKey schema))
      \<or> (\<exists>rest. getDexieStoreSchema gp schema
            = dexieReplaceIfStartsWithPipe (gp (primaryKey schema)) @ '', '' @ rest))
   \<and> getDexieStoreSchema (\<lambda>pk. pk)
        \<lparr>primaryKey = ''id'', indexes = Some [IndexFields [''a''], IndexFields [''b'', ''c'']]\<rparr>
      = ''id, a, [b+c]''"
proof (intro conjI)
  let ?norm = "\<lambda>index. case index of IndexFields paths \<Rightarrow> paths | IndexField path \<Rightarrow> [path]"
  let ?render = "\<lambda>part. if length part = 1 then hd part else ''['' @ array_join part ''+'' @ '']''"
  let ?ixs = "case indexes schema of None \<Rightarrow> [] | Some ixs \<Rightarrow> ixs"
  let ?group = "\<lambda>index. case index of
                  IndexField path \<Rightarrow> dexieReplaceIfStartsWithPipe path
                | IndexFields paths \<Rightarrow>
                    (if length paths = 1 then dexieReplaceIfStartsWithPipe (hd paths)
                     else ''['' @ array_join (map dexieReplaceIfStartsWithPipe paths) ''+'' @ '']'')"
  have "getDexieStoreSchema gp schema
      = array_join (dexieReplaceIfStartsWithPipe (gp (primaryKey schema))
          # map (\<lambda>index. ?render (map dexieReplaceIfStartsWithPipe (?norm index))) ?ixs) '', ''"
    by (cases "indexes schema") (simp_all add: getDexieStoreSchema_def fold_push_parts comp_def)
  also have "(\<lambda>index. ?render (map dexieReplaceIfStartsWithPipe (?norm index))) = ?group"
    by (rule ext) (rule render_index)
  finally show eq: "getDexieStoreSchema gp schema
      = array_join (dexieReplaceIfStartsWithPipe (gp (primaryKey schema)) # map ?group ?ixs) '', ''" .
  show "getDexieStoreSchema gp schema = dexieReplaceIfStartsWithPipe (gp (primaryKey schema))
      \<or> (\<exists>rest. getDexieStoreSchema gp schema
            = dexieReplaceIfStartsWithPipe (gp (primaryKey schema)) @ '', '' @ rest)"
    unfolding eq array_join_Cons by (cases "map ?group ?ixs = []") auto
  show "getDexieStoreSchema (\<lambda>pk. pk)
        \<lparr>primaryKey = ''id'', indexes = Some [IndexFields [''a''], IndexFields [''b'', ''c'']]\<rparr>
      = ''id, a, [b+c]''"
    by (simp add: getDexieStoreSchema_def dexieReplaceIfStartsWithPipe_def startsWith_def)
qed

theorem getDexieStoreSchema_primary_first_witness:
  "getDexieStoreSchema (\<lambda>pk. pk) \<lparr>primaryKey = ''|k'', indexes = Some [IndexField ''|a'']\<rparr>
     = ''RxDBSubstPIPEk, RxDBSubstPIPEa''
   \<and> (\<exists>rest. getDexieStoreSchema (\<lambda>pk. pk)
                 \<lparr>primaryKey = ''|k'', indexes = Some [IndexField ''|a'']\<rparr>
               = ''RxDBSubstPIPEk'' @ '', '' @ rest)"
  using getDexieStoreSchema_primary_first
    [of "\<lambda>pk. pk" "\<lparr>primaryKey = ''|k'', indexes = Some [IndexField ''|a'']\<rparr>"]
  by (simp add: getDexieStoreSchema_def dexieReplaceIfStartsWithPipe_def startsWith_def
      substring_def DEXIE_PIPE_SUBSTITUTE_def)

subsection \<open>The sort comparator\<close>

lemma hash_8n: "DEFAULT_HASH_FUNCTION (JSString ''8n'') = 1092474"
  by (simp add: DEFAULT_HASH_FUNCTION_def JSON_stringify_def json_escape_def char_code_def)

lemma hash_fl: "DEFAULT_HASH_FUNCTION (JSString ''fl'') = 1092474"
  by (simp add: DEFAULT_HASH_FUNCTION_def JSON_stringify_def json_escape_def char_code_def)

lemma decimal_869796: "Number_toString 869796 = ''869796''"
  by (simp add: Number_toString_def decimal.simps digit_char_def)

lemma decimal_1049793: "Number_toString 1049793 = ''1049793''"
  by (simp add: Number_toString_def decimal.simps digit_char_def)

lemma hash_869796: "DEFAULT_HASH_FUNCTION (JSNumber 869796) = 1583267409"
  by (simp add: DEFAULT_HASH_FUNCTION_def decimal_869796 char_code_def)

lemma hash_1049793: "DEFAULT_HASH_FUNCTION (JSNumber 1049793) = 1583267409"
  by (simp add: DEFAULT_HASH_FUNCTION_def decimal_1049793 char_code_def)

lemma object_keys_id: "Object_keys [(''id'', v)] = [''id'']"
  by (simp add: Object_keys_def is_array_index_def char_code_def)

lemma resolve_id: "mingo_resolve [(''id'', v)] ''id'' = Some v"
  by (simp add: mingo_resolve_def)

lemma groupBy_same_hash:
  "hashCode (keyFn a) = hashCode (keyFn b) \<Longrightarrow> groupBy [a, b] keyFn = ([keyFn a], [[a, b]])"
  by (simp add: groupBy_def)

lemma sortBy_single:
  "x \<noteq> JSNull \<Longrightarrow> ToString (Some x) \<notin> set Object_prototype_names
   \<Longrightarrow> sortBy [Some x] (\<lambda>k i. k) comparator = Inr [Some x]"
  by (cases x) (simp_all add: sortBy_def Array_sort_def)

lemma mingo_sort_by_same_hash:
  assumes "mingo_resolve a key = Some x" and "hashCode (mingo_resolve b key) = hashCode (Some x)"
    and "x \<noteq> JSNull" and "ToString (Some x) \<notin> set Object_prototype_names"
  shows "mingo_sort_by js_less key direction [a, b] = Inr [a, b]"
proof -
  have "groupBy [a, b] (\<lambda>obj. mingo_resolve obj key) = ([Some x], [[a, b]])"
    using groupBy_same_hash [of "\<lambda>obj. mingo_resolve obj key" a b] assms(1,2) by simp
  then show ?thesis
    by (simp add: mingo_sort_by_def sortBy_single [OF assms(3,4)])
qed

lemma comparator_same_hash:
  assumes "query_sort query = None"
    and "mingo_resolve a (gp (primaryKey schema)) = Some x"
    and "hashCode (mingo_resolve b (gp (primaryKey schema))) = hashCode (Some x)"
    and "x \<noteq> JSNull" and "ToString (Some x) \<notin> set Object_prototype_names"
  shows "getDexieSortComparator gp js_less schema query a b = Inr (- 1)"
proof -
  have keys: "Object_keys [(gp (primaryKey schema), 1::int)] = [gp (primaryKey schema)]"
    by (simp add: Object_keys_def)
  have "mingo_sort js_less [(gp (primaryKey schema), 1)] [a, b] = Inr [a, b]"
    by (simp add: mingo_sort_def keys mingo_sort_by_same_hash [OF assms(2-5)])
  then show ?thesis
    using assms(1) by (simp add: getDexieSortComparator_def)
qed

lemma comparator_orders_distinct_hashes:
  assumes "js_less (JSString ''a'') (JSString ''b'')" and "\<not> js_less (JSString ''b'') (JSString ''a'')"
  shows "getDexieSortComparator (\<lambda>pk. pk) js_less \<lparr>primaryKey = ''id'', indexes = None\<rparr>
           \<lparr>query_sort = None\<rparr> [(''id'', JSString ''a'')] [(''id'', JSString ''b'')] = Inr (- 1)"
    and "getDexieSortComparator (\<lambda>pk. pk) js_less \<lparr>primaryKey = ''id'', indexes = None\<rparr>
           \<lparr>query_sort = None\<rparr> [(''id'', JSString ''b'')] [(''id'', JSString ''a'')] = Inr 1"
  using assms
  by (simp_all add: getDexieSortComparator_def mingo_sort_def object_keys_id mingo_sort_by_def
      groupBy_def resolve_id hashCode_def DEFAULT_HASH_FUNCTION_def JSON_stringify_def
      json_escape_def char_code_def sortBy_def Array_sort_def DEFAULT_COMPARATOR_def
      Object_prototype_names_def)

text \<open>
  Claim C1, on the code. The schema has the primary key \<open>id\<close> and the query no sort
  clause; the documents \<open>{id: "8n"}\<close> and \<open>{id: "fl"}\<close> have different primary keys whose
  encodings have the same hash, 1092474. The sort puts them into one group and leaves
  them in the order of the input, so the comparator returns \<open>-1\<close> for the pair in either
  order: both "less" results hold, whatever the comparison \<open>js_less\<close> is. The same happens
  with the numbers 869796 and 1049793 as primary keys, whose hash is 1583267409.
\<close>

theorem getDexieSortComparator_hash_collision:
  "DEFAULT_HASH_FUNCTION (JSString ''8n'') = 1092474
   \<and> DEFAULT_HASH_FUNCTION (JSString ''fl'') = 1092474
   \<and> getDexieSortComparator (\<lambda>pk. pk) js_less \<lparr>primaryKey = ''id'', indexes = None\<rparr>
        \<lparr>query_sort = None\<rparr> [(''id'', JSString ''8n'')] [(''id'', JSString ''fl'')] = Inr (- 1)
   \<and> getDexieSortComparator (\<lambda>pk. pk) js_less \<lparr>primaryKey = ''id'', indexes = None\<rparr>
        \<lparr>query_sort = None\<rparr> [(''id'', JSString ''fl'')] [(''id'', JSString ''8n'')] = Inr (- 1)
   \<and> DEFAULT_HASH_FUNCTION (JSNumber 869796) = 1583267409
   \<and> DEFAULT_HASH_FUNCTION (JSNumber 1049793) = 1583267409
   \<and> getDexieSortComparator (\<lambda>pk. pk) js_less \<lparr>primaryKey = ''id'', indexes = None\<rparr>
        \<lparr>query_sort = None\<rparr> [(''id'', JSNumber 869796)] [(''id'', JSNumber 1049793)] = Inr (- 1)
   \<and> getDexieSortComparator (\<lambda>pk. pk) js_less \<lparr>primaryKey = ''id'', indexes = None\<rparr>
        \<lparr>query_sort = None\<rparr> [(''id'', JSNumber 1049793)] [(''id'', JSNumber 869796)] = Inr (- 1)"
proof -
  have s: "hashCode (Some (JSString ''8n'')) = hashCode (Some (JSString ''fl''))"
    by (simp add: hashCode_def hash_8n hash_fl)
  have n: "hashCode (Some (JSNumber 869796)) = hashCode (Some (JSNumber 1049793))"
    by (simp add: hashCode_def hash_869796 hash_1049793)
  have "getDexieSortComparator (\<lambda>pk. pk) js_less \<lparr>primaryKey = ''id'', indexes = None\<rparr>
        \<lparr>query_sort = None\<rparr> [(''id'', JSString ''8n'')] [(''id'', JSString ''fl'')] = Inr (- 1)"
    by (rule comparator_same_hash [where x = "JSString ''8n''"])
      (simp_all add: resolve_id s Object_prototype_names_def)
  moreover have "getDexieSortComparator (\<lambda>pk. pk) js_less \<lparr>primaryKey = ''id'', indexes = None\<rparr>
        \<lparr>query_sort = None\<rparr> [(''id'', JSString ''fl'')] [(''id'', JSString ''8n'')] = Inr (- 1)"
    by (rule comparator_same_hash [where x = "JSString ''fl''"])
      (simp_all add: resolve_id s Object_prototype_names_def)
  moreover have "getDexieSortComparator (\<lambda>pk. pk) js_less \<lparr>primaryKey = ''id'', indexes = None\<rparr>
        \<lparr>query_sort = None\<rparr> [(''id'', JSNumber 869796)] [(''id'', JSNumber 1049793)] = Inr (- 1)"
    by (rule comparator_same_hash [where x = "JSNumber 869796"])
      (simp_all add: resolve_id n decimal_869796 Object_prototype_names_def)
  moreover have "getDexieSortComparator (\<lambda>pk. pk) js_less \<lparr>primaryKey = ''id'', indexes = None\<rparr>
        \<lparr>query_sort = None\<rparr> [(''id'', JSNumber 1049793)] [(''id'', JSNumber 869796)] = Inr (- 1)"
    by (rule comparator_same_hash [where x = "JSNumber 1049793"])
      (simp_all add: resolve_id n decimal_1049793 Object_prototype_names_def)
  ultimately show ?thesis
    by (simp add: hash_8n hash_fl hash_869796 hash_1049793)
qed

subsection \<open>The registry\<close>

lemma acquire_existing:
  "DEXIE_STATE_DB_BY_NAME w (''rxdb-dexie-'' @ databaseName @ ''--'' @ collectionName) = Some h
   \<Longrightarrow> getDexieDbWithTables gp databaseName collectionName settings schema w = (h, w)"
  by (simp add: getDexieDbWithTables_def)

lemma acquire_new:
  assumes "DEXIE_STATE_DB_BY_NAME w (''rxdb-dexie-'' @ databaseName @ ''--'' @ collectionName) = None"
    and "getDexieDbWithTables gp databaseName collectionName settings schema w = (h, w')"
  shows "h = length (promises w)"
    and "DEXIE_STATE_DB_BY_NAME w'
           = (DEXIE_STATE_DB_BY_NAME w)(''rxdb-dexie-'' @ databaseName @ ''--'' @ collectionName \<mapsto> h)"
    and "REF_COUNT_PER_DEXIE_DB w' = (REF_COUNT_PER_DEXIE_DB w)(h \<mapsto> Num 0)"
    and "open_calls w' = open_calls w @ [''rxdb-dexie-'' @ databaseName @ ''--'' @ collectionName]"
    and "close_calls w' = close_calls w"
    and "length (promises w') = Suc (length (promises w))"
    and "promise (promises w' ! h) = Pending"
    and "dexieDb_options (promises w' ! h) = length (heap w)"
    and "heap w' = (heap w @ [heap w ! settings])
                     [length (heap w) := set_property (heap w ! settings) ''autoOpen'' (JSBool False)]"
    and "dexieDb_name (promises w' ! h) = ''rxdb-dexie-'' @ databaseName @ ''--'' @ collectionName"
    and "promises w' = promises w @ [promises w' ! h]"
  using assms by (auto simp: getDexieDbWithTables_def flatClone_def Let_def)

text \<open>
  Claim C9. The creation of a handle is memoized by the name of the database. A first call
  for a name that has no entry creates one new promise, after the promises that exist and
  leaving them as they are; the promise is the one of the database of that name and is
  still pending. The call installs it in the registry under the name before it returns,
  and calls \<^verbatim>\<open>open()\<close> once. A call for a name that has an entry returns the handle of that
  entry, whatever the settings and the schema, and changes nothing: no second \<^verbatim>\<open>open()\<close>.
  So a call that follows another call for the same name returns the same handle.
\<close>

theorem getDexieDbWithTables_memoized:
  "(DEXIE_STATE_DB_BY_NAME w (''rxdb-dexie-'' @ databaseName @ ''--'' @ collectionName) = None \<longrightarrow>
      (case getDexieDbWithTables gp databaseName collectionName settings schema w of
         (h, w') \<Rightarrow>
           DEXIE_STATE_DB_BY_NAME w' (''rxdb-dexie-'' @ databaseName @ ''--'' @ collectionName) = Some h
           \<and> h = length (promises w)
           \<and> h < length (promises w')
           \<and> promises w' = promises w @ [promises w' ! h]
           \<and> promise (promises w' ! h) = Pending
           \<and> dexieDb_name (promises w' ! h)
               = ''rxdb-dexie-'' @ databaseName @ ''--'' @ collectionName
           \<and> await w' h = Awaits
           \<and> open_calls w' = open_calls w @ [''rxdb-dexie-'' @ databaseName @ ''--'' @ collectionName]))
   \<and> (DEXIE_STATE_DB_BY_NAME w (''rxdb-dexie-'' @ databaseName @ ''--'' @ collectionName) = Some h \<longrightarrow>
        getDexieDbWithTables gp databaseName collectionName settings' schema' w = (h, w))
   \<and> (case getDexieDbWithTables gp databaseName collectionName settings schema w of
         (h, w') \<Rightarrow>
           getDexieDbWithTables gp databaseName collectionName settings' schema' w' = (h, w'))"
proof (intro conjI impI)
  let ?name = "''rxdb-dexie-'' @ databaseName @ ''--'' @ collectionName"
  obtain h1 w1 where acq: "getDexieDbWithTables gp databaseName collectionName settings schema w = (h1, w1)"
    by (cases "getDexieDbWithTables gp databaseName collectionName settings schema w")
  {
    assume none: "DEXIE_STATE_DB_BY_NAME w ?name = None"
    note n = acquire_new [OF none acq]
    have inside: "h1 < length (promises w1)"
      using n(1,6) by simp
    have "await w1 h1 = Awaits"
      using inside n(7) by (simp add: await_def)
    with n(1,2,4,7,10,11) inside
    show "case getDexieDbWithTables gp databaseName collectionName settings schema w of
         (h, w') \<Rightarrow>
           DEXIE_STATE_DB_BY_NAME w' ?name = Some h
           \<and> h = length (promises w)
           \<and> h < length (promises w')
           \<and> promises w' = promises w @ [promises w' ! h]
           \<and> promise (promises w' ! h) = Pending
           \<and> dexieDb_name (promises w' ! h) = ?name
           \<and> await w' h = Awaits
           \<and> open_calls w' = open_calls w @ [?name]"
      unfolding acq by simp
  }
  {
    assume "DEXIE_STATE_DB_BY_NAME w ?name = Some h"
    then show "getDexieDbWithTables gp databaseName collectionName settings' schema' w = (h, w)"
      by (rule acquire_existing)
  }
  have "DEXIE_STATE_DB_BY_NAME w1 ?name = Some h1"
  proof (cases "DEXIE_STATE_DB_BY_NAME w ?name")
    case None
    from acquire_new(2) [OF None acq] show ?thesis by simp
  next
    case (Some h0)
    from acquire_existing [OF Some, of gp settings schema] acq Some show ?thesis by simp
  qed
  then show "case getDexieDbWithTables gp databaseName collectionName settings schema w of
         (h, w') \<Rightarrow>
           getDexieDbWithTables gp databaseName collectionName settings' schema' w' = (h, w')"
    unfolding acq by (simp add: acquire_existing)
qed

theorem getDexieDbWithTables_memoized_witness:
  "DEXIE_STATE_DB_BY_NAME example_world ''rxdb-dexie-db--col'' = None
   \<and> fst (example_acquire example_world) = 0
   \<and> DEXIE_STATE_DB_BY_NAME (snd (example_acquire example_world)) ''rxdb-dexie-db--col'' = Some 0
   \<and> length (promises (snd (example_acquire example_world))) = 1
   \<and> promise (promises (snd (example_acquire example_world)) ! 0) = Pending
   \<and> dexieDb_name (promises (snd (example_acquire example_world)) ! 0) = ''rxdb-dexie-db--col''
   \<and> await (snd (example_acquire example_world)) 0 = Awaits
   \<and> open_calls (snd (example_acquire example_world)) = [''rxdb-dexie-db--col'']
   \<and> example_acquire (snd (example_acquire example_world))
       = (0, snd (example_acquire example_world))"
  using getDexieDbWithTables_memoized
    [of example_world "''db''" "''col''" "\<lambda>pk. pk" 0 example_schema 0 0 example_schema]
  by (simp add: example_acquire_def example_world_def initial_world_def
      getDexieDbWithTables_def flatClone_def await_def Let_def)

text \<open>
  Claim C10. A call leaves every object that was in the heap as it was, the settings
  object of the caller among them. When a database is created, its options are a new
  object: the properties of the settings with \<open>autoOpen\<close> set to false.
\<close>

theorem getDexieDbWithTables_settings_unchanged:
  "(a < length (heap w) \<longrightarrow>
      heap (snd (getDexieDbWithTables gp databaseName collectionName settings schema w)) ! a
        = heap w ! a)
   \<and> (DEXIE_STATE_DB_BY_NAME w (''rxdb-dexie-'' @ databaseName @ ''--'' @ collectionName) = None \<longrightarrow>
        (case getDexieDbWithTables gp databaseName collectionName settings schema w of
           (h, w') \<Rightarrow>
             dexieDb_options (promises w' ! h) = length (heap w)
             \<and> heap w' ! dexieDb_options (promises w' ! h)
                 = set_property (heap w ! settings) ''autoOpen'' (JSBool False)))"
proof (intro conjI impI)
  let ?name = "''rxdb-dexie-'' @ databaseName @ ''--'' @ collectionName"
  obtain h1 w1 where acq: "getDexieDbWithTables gp databaseName collectionName settings schema w = (h1, w1)"
    by (cases "getDexieDbWithTables gp databaseName collectionName settings schema w")
  {
    assume a: "a < length (heap w)"
    show "heap (snd (getDexieDbWithTables gp databaseName collectionName settings schema w)) ! a
        = heap w ! a"
    proof (cases "DEXIE_STATE_DB_BY_NAME w ?name")
      case None
      from acquire_new(9) [OF None acq] a show ?thesis
        unfolding acq by (simp add: nth_append)
    next
      case (Some h0)
      from acquire_existing [OF Some, of gp settings schema] show ?thesis by simp
    qed
  }
  {
    assume none: "DEXIE_STATE_DB_BY_NAME w ?name = None"
    note n = acquire_new [OF none acq]
    show "case getDexieDbWithTables gp databaseName collectionName settings schema w of
           (h, w') \<Rightarrow>
             dexieDb_options (promises w' ! h) = length (heap w)
             \<and> heap w' ! dexieDb_options (promises w' ! h)
                 = set_property (heap w ! settings) ''autoOpen'' (JSBool False)"
      unfolding acq using n(8,9) by simp
  }
qed

theorem getDexieDbWithTables_settings_unchanged_witness:
  "(0::nat) < length (heap example_world)
   \<and> DEXIE_STATE_DB_BY_NAME example_world ''rxdb-dexie-db--col'' = None
   \<and> heap (snd (example_acquire example_world)) ! 0 = [(''autoOpen'', JSBool True)]
   \<and> heap (snd (example_acquire example_world)) ! 1 = [(''autoOpen'', JSBool False)]
   \<and> dexieDb_options (promises (snd (example_acquire example_world)) ! 0) = 1"
  using getDexieDbWithTables_settings_unchanged
    [of 0 example_world "\<lambda>pk. pk" "''db''" "''col''" 0 example_schema]
  by (simp add: example_acquire_def example_world_def initial_world_def
      getDexieDbWithTables_def flatClone_def Let_def)

lemma settle_registry [simp]:
  "DEXIE_STATE_DB_BY_NAME (settle r p w) = DEXIE_STATE_DB_BY_NAME w"
  "REF_COUNT_PER_DEXIE_DB (settle r p w) = REF_COUNT_PER_DEXIE_DB w"
  "open_calls (settle r p w) = open_calls w"
  "close_calls (settle r p w) = close_calls w"
  "heap (settle r p w) = heap w"
  "length (promises (settle r p w)) = length (promises w)"
  by (simp_all add: settle_def)

lemma await_settle_pending:
  "p < length (promises w) \<Longrightarrow> promise (promises w ! p) = Pending \<Longrightarrow>
   await (settle Rejected p w) p = Throws OpenFailed"
  by (simp add: await_def settle_def)

text \<open>
  Claim C2, on the code. One call of \<^verbatim>\<open>getDexieDbWithTables\<close>, the open succeeds, one
  call of \<^verbatim>\<open>closeDexieDb\<close>: the count, set to 0 at creation and never incremented, becomes
  \<open>-1\<close>, so the test \<^verbatim>\<open>newCount === 0\<close> fails and \<^verbatim>\<open>close()\<close> is not called. The entry
  of the name stays in the registry, and the next call for the name returns the same
  handle without a new \<^verbatim>\<open>open()\<close>.
\<close>

theorem closeDexieDb_after_single_acquire:
  "(case example_acquire example_world of
      (h, w1) \<Rightarrow>
        (case closeDexieDb h (open_succeeds h w1) of
           Returns w3 \<Rightarrow>
             REF_COUNT_PER_DEXIE_DB w3 h = Some (Num (- 1))
             \<and> close_calls w3 = []
             \<and> dexieDb_closed (promises w3 ! h) = False
             \<and> DEXIE_STATE_DB_BY_NAME w3 ''rxdb-dexie-db--col'' = Some h
             \<and> example_acquire w3 = (h, w3)
             \<and> open_calls w3 = [''rxdb-dexie-db--col'']
         | Throws e \<Rightarrow> False
         | Awaits \<Rightarrow> False))"
  by (simp add: example_acquire_def example_world_def initial_world_def
      getDexieDbWithTables_def flatClone_def Let_def open_succeeds_def settle_def
      closeDexieDb_def await_def)

text \<open>
  Claim C5 as stated fails: after the open of a new database has failed, the entry of its
  name is still in the registry, and the next call for the name returns the rejected
  handle; \<^verbatim>\<open>open()\<close> is not called again.
\<close>

theorem open_failure_entry_not_evicted:
  "(case example_acquire example_world of
      (h, w1) \<Rightarrow>
        DEXIE_STATE_DB_BY_NAME (open_fails h w1) ''rxdb-dexie-db--col'' = Some h
        \<and> await (open_fails h w1) h = Throws OpenFailed
        \<and> example_acquire (open_fails h w1) = (h, open_fails h w1)
        \<and> open_calls (snd (example_acquire (open_fails h w1))) = [''rxdb-dexie-db--col''])"
  by (simp add: example_acquire_def example_world_def initial_world_def
      getDexieDbWithTables_def flatClone_def Let_def open_fails_def settle_def await_def)

text \<open>
  Claim C5, amended. When the open of a newly created database fails, the entry of its
  name is kept: a later call for the name, whatever its settings and schema, returns the
  same rejected handle and changes nothing. The failure reaches everyone who awaits the
  handle: \<^verbatim>\<open>await\<close>, \<^verbatim>\<open>closeDexieDb\<close> and \<^verbatim>\<open>getDocsInDb\<close> throw the error of the open.
\<close>

theorem open_failure_entry_kept:
  "DEXIE_STATE_DB_BY_NAME w (''rxdb-dexie-'' @ databaseName @ ''--'' @ collectionName) = None \<Longrightarrow>
   (case getDexieDbWithTables gp databaseName collectionName settings schema w of
      (h, w1) \<Rightarrow>
        DEXIE_STATE_DB_BY_NAME (open_fails h w1)
            (''rxdb-dexie-'' @ databaseName @ ''--'' @ collectionName) = Some h
        \<and> getDexieDbWithTables gp databaseName collectionName settings' schema' (open_fails h w1)
            = (h, open_fails h w1)
        \<and> await (open_fails h w1) h = Throws OpenFailed
        \<and> closeDexieDb h (open_fails h w1) = Throws OpenFailed
        \<and> getDocsInDb (open_fails h w1) h docIds = Throws OpenFailed)"
proof -
  let ?name = "''rxdb-dexie-'' @ databaseName @ ''--'' @ collectionName"
  assume none: "DEXIE_STATE_DB_BY_NAME w ?name = None"
  obtain h w1 where acq: "getDexieDbWithTables gp databaseName collectionName settings schema w = (h, w1)"
    by (cases "getDexieDbWithTables gp databaseName collectionName settings schema w")
  note n = acquire_new [OF none acq]
  have entry: "DEXIE_STATE_DB_BY_NAME (open_fails h w1) ?name = Some h"
    using n(2) by (simp add: open_fails_def)
  have again: "getDexieDbWithTables gp databaseName collectionName settings' schema' (open_fails h w1)
            = (h, open_fails h w1)"
    using entry by (rule acquire_existing)
  have rejected: "await (open_fails h w1) h = Throws OpenFailed"
    unfolding open_fails_def using n(1,6,7) by (intro await_settle_pending) simp_all
  have "closeDexieDb h (open_fails h w1) = Throws OpenFailed"
    by (simp add: closeDexieDb_def rejected)
  moreover have "getDocsInDb (open_fails h w1) h docIds = Throws OpenFailed"
    by (simp add: getDocsInDb_def rejected)
  ultimately show ?thesis
    unfolding acq using entry again rejected by simp
qed

theorem open_failure_entry_kept_witness:
  "DEXIE_STATE_DB_BY_NAME example_world ''rxdb-dexie-db--col'' = None
   \<and> fst (example_acquire example_world) = 0
   \<and> closeDexieDb 0 (open_fails 0 (snd (example_acquire example_world))) = Throws OpenFailed
   \<and> getDocsInDb (open_fails 0 (snd (example_acquire example_world))) 0 [''x''] = Throws OpenFailed
   \<and> example_acquire (open_fails 0 (snd (example_acquire example_world)))
       = (0, open_fails 0 (snd (example_acquire example_world)))"
proof -
  have none: "DEXIE_STATE_DB_BY_NAME example_world (''rxdb-dexie-'' @ ''db'' @ ''--'' @ ''col'') = None"
    by (simp add: example_world_def initial_world_def)
  have acq: "fst (example_acquire example_world) = 0"
    by (simp add: example_acquire_def example_world_def initial_world_def
        getDexieDbWithTables_def flatClone_def Let_def)
  from open_failure_entry_kept
      [where w = example_world and databaseName = "''db''" and collectionName = "''col''"
         and gp = "\<lambda>pk. pk" and settings = 0 and schema = example_schema
         and settings' = 0 and schema' = example_schema and docIds = "[''x'']", OF none]
    none acq
  show ?thesis
    by (simp add: example_acquire_def split: prod.splits)
qed

text \<open>
  Claim C8 as stated fails: \<^verbatim>\<open>closeDexieDb\<close> on an open handle that has no reference
  count returns normally and records the count \<open>NaN\<close>; a second \<^verbatim>\<open>closeDexieDb\<close> after a
  single \<^verbatim>\<open>getDexieDbWithTables\<close> returns normally and records the count \<open>-2\<close>.
\<close>

theorem closeDexieDb_misuse_not_reported:
  "closeDexieDb 0 example_tables_world
     = Returns (example_tables_world\<lparr>REF_COUNT_PER_DEXIE_DB := [0 \<mapsto> NaN]\<rparr>)
   \<and> (case example_acquire example_world of
        (h, w1) \<Rightarrow>
          (case closeDexieDb h (open_succeeds h w1) of
             Returns w3 \<Rightarrow>
               (case closeDexieDb h w3 of
                  Returns w4 \<Rightarrow>
                    REF_COUNT_PER_DEXIE_DB w4 h = Some (Num (- 2)) \<and> close_calls w4 = []
                | Throws e \<Rightarrow> False
                | Awaits \<Rightarrow> False)
           | Throws e \<Rightarrow> False
           | Awaits \<Rightarrow> False))"
proof
  show "closeDexieDb 0 example_tables_world
     = Returns (example_tables_world\<lparr>REF_COUNT_PER_DEXIE_DB := [0 \<mapsto> NaN]\<rparr>)"
    by (simp add: closeDexieDb_def await_def example_tables_world_def initial_world_def)
  show "case example_acquire example_world of
        (h, w1) \<Rightarrow>
          (case closeDexieDb h (open_succeeds h w1) of
             Returns w3 \<Rightarrow>
               (case closeDexieDb h w3 of
                  Returns w4 \<Rightarrow>
                    REF_COUNT_PER_DEXIE_DB w4 h = Some (Num (- 2)) \<and> close_calls w4 = []
                | Throws e \<Rightarrow> False
                | Awaits \<Rightarrow> False)
           | Throws e \<Rightarrow> False
           | Awaits \<Rightarrow> False)"
    by (simp add: example_acquire_def example_world_def initial_world_def
      getDexieDbWithTables_def flatClone_def Let_def open_succeeds_def settle_def
      closeDexieDb_def await_def)
qed

text \<open>
  Claim C8, amended. On a handle whose open has succeeded, \<^verbatim>\<open>closeDexieDb\<close> always returns
  normally; no misuse is reported. On a handle without a reference count it records the
  count \<open>NaN\<close>; on a handle whose count \<open>n\<close> is zero or negative it records \<open>n - 1\<close>. In
  both cases nothing else changes, so \<^verbatim>\<open>close()\<close> is not called.
\<close>

theorem closeDexieDb_completes_without_error:
  "await w statePromise = Returns state \<Longrightarrow>
   (\<exists>w'. closeDexieDb statePromise w = Returns w')
   \<and> (REF_COUNT_PER_DEXIE_DB w statePromise = None \<longrightarrow>
        closeDexieDb statePromise w
          = Returns (w\<lparr>REF_COUNT_PER_DEXIE_DB := (REF_COUNT_PER_DEXIE_DB w)(statePromise \<mapsto> NaN)\<rparr>))
   \<and> (\<forall>n. n \<le> 0 \<and> REF_COUNT_PER_DEXIE_DB w statePromise = Some (Num n) \<longrightarrow>
        closeDexieDb statePromise w
          = Returns (w\<lparr>REF_COUNT_PER_DEXIE_DB :=
                        (REF_COUNT_PER_DEXIE_DB w)(statePromise \<mapsto> Num (n - 1))\<rparr>))"
  by (auto simp: closeDexieDb_def Let_def)

theorem closeDexieDb_completes_without_error_witness:
  "await example_tables_world 0 = Returns (promises example_tables_world ! 0)
   \<and> REF_COUNT_PER_DEXIE_DB example_tables_world 0 = None
   \<and> closeDexieDb 0 example_tables_world
       = Returns (example_tables_world
                    \<lparr>REF_COUNT_PER_DEXIE_DB := (REF_COUNT_PER_DEXIE_DB example_tables_world)(0 \<mapsto> NaN)\<rparr>)"
proof -
  have h: "await example_tables_world 0 = Returns (promises example_tables_world ! 0)"
    by (simp add: await_def example_tables_world_def initial_world_def)
  have n: "REF_COUNT_PER_DEXIE_DB example_tables_world 0 = None"
    by (simp add: example_tables_world_def initial_world_def)
  from closeDexieDb_completes_without_error [OF h] h n show ?thesis by simp
qed

subsection \<open>Reading documents\<close>

lemma length_fold_overwrite:
  "length (fold (\<lambda>(x, idx) s. case x of Some d \<Rightarrow> s[idx := Some d] | None \<Rightarrow> s) ps acc)
     = length acc"
  by (induction ps arbitrary: acc) (auto split: option.splits)

lemma nth_fold_overwrite:
  "n + length xs \<le> length acc \<Longrightarrow> i < length acc \<Longrightarrow>
   fold (\<lambda>(x, idx) s. case x of Some d \<Rightarrow> s[idx := Some d] | None \<Rightarrow> s)
        (zip xs [n..<n + length xs]) acc ! i
     = (if n \<le> i \<and> i < n + length xs
        then (case xs ! (i - n) of Some d \<Rightarrow> Some d | None \<Rightarrow> acc ! i)
        else acc ! i)"
proof (induction xs arbitrary: n acc)
  case Nil
  then show ?case by auto
next
  case (Cons x xs)
  let ?step = "\<lambda>(x, idx) s. case x of Some d \<Rightarrow> s[idx := Some d] | None \<Rightarrow> s"
  let ?acc = "case x of Some d \<Rightarrow> acc[n := Some d] | None \<Rightarrow> acc"
  have len: "length ?acc = length acc" by (cases x) simp_all
  have upt: "[n..<n + length (x # xs)] = n # [Suc n..<Suc n + length xs]"
    by (subst upt_rec) simp
  have unfold: "fold ?step (zip (x # xs) [n..<n + length (x # xs)]) acc
      = fold ?step (zip xs [Suc n..<Suc n + length xs]) ?acc"
    unfolding upt by simp
  have IH: "fold ?step (zip xs [Suc n..<Suc n + length xs]) ?acc ! i
     = (if Suc n \<le> i \<and> i < Suc n + length xs
        then (case xs ! (i - Suc n) of Some d \<Rightarrow> Some d | None \<Rightarrow> ?acc ! i)
        else ?acc ! i)"
    using Cons.prems by (intro Cons.IH) (simp_all add: len)
  have acc_i: "?acc ! i = (if i = n then (case x of Some d \<Rightarrow> Some d | None \<Rightarrow> acc ! i) else acc ! i)"
    using Cons.prems by (cases x) (simp_all add: nth_list_update)
  show ?case
  proof (cases "i = n")
    case True
    then show ?thesis unfolding unfold IH acc_i by simp
  next
    case False
    then show ?thesis unfolding unfold IH acc_i
      by (cases "Suc n \<le> i") (auto simp: nth_Cons' Suc_diff_Suc not_less_eq_eq)
  qed
qed

lemma getDocsInDb_fulfilled:
  assumes "await w h = Returns state"
  shows "\<exists>docs. getDocsInDb w h docIds = Returns docs \<and> length docs = length docIds \<and>
           (\<forall>i<length docIds. docs ! i =
              (case dexieTable state (docIds ! i) of
                 Some d \<Rightarrow> Some d | None \<Rightarrow> dexieDeletedTable state (docIds ! i)))"
proof -
  let ?step = "\<lambda>(x, idx) s. case x of Some d \<Rightarrow> s[idx := Some d] | None \<Rightarrow> s"
  let ?docs = "fold ?step (zip (map (dexieTable state) docIds) [0..<length docIds])
                 (map (dexieDeletedTable state) docIds)"
  have eq: "getDocsInDb w h docIds = Returns ?docs"
    using assms by (simp add: getDocsInDb_def bulkGet_def forEach_indexed_def)
  have len: "length ?docs = length docIds"
    by (simp add: length_fold_overwrite)
  have nth: "?docs ! i = (case dexieTable state (docIds ! i) of
                 Some d \<Rightarrow> Some d | None \<Rightarrow> dexieDeletedTable state (docIds ! i))"
    if "i < length docIds" for i
    using that
      nth_fold_overwrite [of 0 "map (dexieTable state) docIds" "map (dexieDeletedTable state) docIds" i]
    by (simp split: option.splits)
  from eq len nth show ?thesis by blast
qed

text \<open>
  Claim C3. For a handle whose open has succeeded and every sequence of ids,
  \<^verbatim>\<open>getDocsInDb\<close> returns a sequence as long as the ids and in their order: at the place
  of an id that the table of documents holds stands the document of that table, also
  when the table of deleted documents holds the id too; at the place of an id that only
  the table of deleted documents holds stands the deleted document; at the place of an
  id in neither table stands nothing, and no error is thrown.
\<close>

theorem getDocsInDb_merge:
  "await w internals = Returns state \<Longrightarrow>
   \<exists>docs. getDocsInDb w internals docIds = Returns docs \<and> length docs = length docIds \<and>
     (\<forall>i<length docIds.
        (\<forall>v2. dexieTable state (docIds ! i) = Some v2 \<longrightarrow> docs ! i = Some v2)
        \<and> (\<forall>v3. dexieTable state (docIds ! i) = None
                \<and> dexieDeletedTable state (docIds ! i) = Some v3 \<longrightarrow> docs ! i = Some v3)
        \<and> (dexieTable state (docIds ! i) = None
             \<and> dexieDeletedTable state (docIds ! i) = None \<longrightarrow> docs ! i = None))"
proof -
  assume "await w internals = Returns state"
  from getDocsInDb_fulfilled [OF this, of docIds]
  obtain docs where docs: "getDocsInDb w internals docIds = Returns docs"
      "length docs = length docIds"
      "\<And>i. i < length docIds \<Longrightarrow> docs ! i =
              (case dexieTable state (docIds ! i) of
                 Some d \<Rightarrow> Some d | None \<Rightarrow> dexieDeletedTable state (docIds ! i))"
    by blast
  have "(\<forall>v2. dexieTable state (docIds ! i) = Some v2 \<longrightarrow> docs ! i = Some v2)
        \<and> (\<forall>v3. dexieTable state (docIds ! i) = None
                \<and> dexieDeletedTable state (docIds ! i) = Some v3 \<longrightarrow> docs ! i = Some v3)
        \<and> (dexieTable state (docIds ! i) = None
             \<and> dexieDeletedTable state (docIds ! i) = None \<longrightarrow> docs ! i = None)"
    if "i < length docIds" for i
    using docs(3) [OF that] by simp
  with docs(1,2) show ?thesis by blast
qed

theorem getDocsInDb_merge_witness:
  "await example_tables_world 0 = Returns (promises example_tables_world ! 0)
   \<and> getDocsInDb example_tables_world 0 [''x'', ''y'', ''z'']
       = Returns [Some [(''id'', JSString ''x''), (''n'', JSNumber 2)],
                  Some [(''id'', JSString ''y''), (''n'', JSNumber 3), (''$lastWriteAt'', JSNumber 98)],
                  None]"
proof -
  have h: "await example_tables_world 0 = Returns (promises example_tables_world ! 0)"
    by (simp add: await_def example_tables_world_def initial_world_def)
  have "getDocsInDb example_tables_world 0 [''x'', ''y'', ''z'']
       = Returns [Some [(''id'', JSString ''x''), (''n'', JSNumber 2)],
                  Some [(''id'', JSString ''y''), (''n'', JSNumber 3), (''$lastWriteAt'', JSNumber 98)],
                  None]"
    using getDocsInDb_merge [OF h, of "[''x'', ''y'', ''z'']"]
    by (simp add: getDocsInDb_def await_def example_tables_world_def initial_world_def
        bulkGet_def forEach_indexed_def upt_rec)
  with h show ?thesis by simp
qed

lemma resolve_delete_property:
  "resolve (delete_property obj key) k = (if k = key then None else resolve obj k)"
  by (induction obj) (auto simp: resolve_def delete_property_def)

text \<open>
  Claim C7 as stated fails: \<^verbatim>\<open>getDocsInDb\<close> returns a deleted document with its
  \<open>$lastWriteAt\<close> field.
\<close>

theorem getDocsInDb_keeps_lastWriteAt:
  "getDocsInDb example_tables_world 0 [''y'']
     = Returns [Some [(''id'', JSString ''y''), (''n'', JSNumber 3), (''$lastWriteAt'', JSNumber 98)]]
   \<and> resolve [(''id'', JSString ''y''), (''n'', JSNumber 3), (''$lastWriteAt'', JSNumber 98)]
        ''$lastWriteAt'' = Some (JSNumber 98)"
  by (simp add: getDocsInDb_def await_def example_tables_world_def initial_world_def
      bulkGet_def forEach_indexed_def resolve_def)

text \<open>
  Claim C7, amended. \<^verbatim>\<open>getDocsInDb\<close> returns every document as one of the two tables
  holds it, the \<open>$lastWriteAt\<close> field included. The field is removed by \<^verbatim>\<open>stripDexieKey\<close>,
  which is left to the caller: applied to a returned document it gives a document without
  \<open>$lastWriteAt\<close> that agrees with the returned one on every other field.
\<close>

theorem getDocsInDb_then_stripDexieKey:
  "await w internals = Returns state \<Longrightarrow> getDocsInDb w internals docIds = Returns docs
   \<Longrightarrow> i < length docIds \<Longrightarrow> docs ! i = Some d \<Longrightarrow>
   (dexieTable state (docIds ! i) = Some d \<or> dexieDeletedTable state (docIds ! i) = Some d)
   \<and> resolve (stripDexieKey d) ''$lastWriteAt'' = None
   \<and> (\<forall>key. key \<noteq> ''$lastWriteAt'' \<longrightarrow> resolve (stripDexieKey d) key = resolve d key)"
proof -
  assume a: "await w internals = Returns state" and g: "getDocsInDb w internals docIds = Returns docs"
    and i: "i < length docIds" and d: "docs ! i = Some d"
  from getDocsInDb_fulfilled [OF a, of docIds] g i
  have "docs ! i = (case dexieTable state (docIds ! i) of
                 Some d \<Rightarrow> Some d | None \<Rightarrow> dexieDeletedTable state (docIds ! i))"
    by auto
  with d have "dexieTable state (docIds ! i) = Some d \<or> dexieDeletedTable state (docIds ! i) = Some d"
    by (auto split: option.splits)
  then show ?thesis
    by (simp add: stripDexieKey_def resolve_delete_property)
qed

theorem getDocsInDb_then_stripDexieKey_witness:
  "await example_tables_world 0 = Returns (promises example_tables_world ! 0)
   \<and> getDocsInDb example_tables_world 0 [''y'']
       = Returns [Some [(''id'', JSString ''y''), (''n'', JSNumber 3), (''$lastWriteAt'', JSNumber 98)]]
   \<and> stripDexieKey [(''id'', JSString ''y''), (''n'', JSNumber 3), (''$lastWriteAt'', JSNumber 98)]
       = [(''id'', JSString ''y''), (''n'', JSNumber 3)]
   \<and> resolve (stripDexieKey [(''id'', JSString ''y''), (''n'', JSNumber 3), (''$lastWriteAt'', JSNumber 98)])
        ''$lastWriteAt'' = None"
proof -
  have h: "await example_tables_world 0 = Returns (promises example_tables_world ! 0)"
    by (simp add: await_def example_tables_world_def initial_world_def)
  have g: "getDocsInDb example_tables_world 0 [''y'']
       = Returns [Some [(''id'', JSString ''y''), (''n'', JSNumber 3), (''$lastWriteAt'', JSNumber 98)]]"
    by (simp add: getDocsInDb_def await_def example_tables_world_def initial_world_def
        bulkGet_def forEach_indexed_def)
  have s: "stripDexieKey [(''id'', JSString ''y''), (''n'', JSNumber 3), (''$lastWriteAt'', JSNumber 98)]
       = [(''id'', JSString ''y''), (''n'', JSNumber 3)]"
    by (simp add: stripDexieKey_def delete_property_def)
  from getDocsInDb_then_stripDexieKey [OF h g, of 0] h g s show ?thesis by simp
qed

end
